theory Spec2Isabelle
  imports Main "HOL-Library.Word"
begin

section \<open>Data model of code.cc\<close>

text \<open>
  A coroutine frame lives at an address; the frame holds the coroutine's \<open>Promise\<close>, and the
  promise holds the \<open>CoroutineRetvalHolder\<close> (the result cell).  A
  \<open>std::coroutine_handle<promise_type>\<close> is the address of a frame, \<open>nullptr\<close> is \<open>None\<close>.
  A type-erased \<open>std::coroutine_handle<>\<close> kept in \<open>to_resume\<close> names a suspended coroutine,
  whose promise may be of any type; the state says for each such handle whether its frame
  is alive and on which awaiter the coroutine is suspended.
\<close>

type_synonym addr = nat
type_synonym coroutine_handle = nat

text \<open>
  The ways an operation ends the process or leaves defined behaviour:
  \<open>std::terminate()\<close> (with what was printed to \<open>std::cout\<close> before it), an access through a
  null or dangling pointer or handle, and locking a \<open>std::mutex\<close> that is already held.
  Every operation below runs from its first to its last step without another one in
  between, so a mutex found held at a \<open>lock_guard\<close> is held by the caller itself (a
  continuation resumed under the lock that comes back to the same cell): the caller can
  never proceed.
\<close>

datatype fatal = Terminate string | Undefined_behaviour | Deadlock

text \<open>\<open>struct ExecutorStats\<close>: three \<open>size_t\<close> counters, \<open>++\<close> wraps at 64 bits.\<close>

record ExecutorStats =
  total_awaitable_ready :: "64 word"
  total_awaitable_need_to_wait :: "64 word"
  total_immediate_ready :: "64 word"

text \<open>
  \<open>struct CoroutineRetvalHolder<RETVAL>\<close>.  \<open>mut\<close> is the mutex (\<open>True\<close> when held),
  \<open>val\<close> is the member \<open>value\<close>.  The \<open>void\<close> specialisation is the instance
  \<open>unit CoroutineRetvalHolder\<close>.
\<close>

record 'v CoroutineRetvalHolder =
  mut :: bool
  returned :: bool
  val :: 'v
  to_resume :: "coroutine_handle list"

text \<open>\<open>struct Promise<T>\<close>: its only data member is \<open>holder\<close>.\<close>

record 'v Promise =
  holder :: "'v CoroutineRetvalHolder"

text \<open>
  A freshly constructed promise: \<open>returned = false\<close>, no waiters, mutex free.
  \<open>RETVAL value;\<close> is default-initialised; its content is the parameter.
\<close>

definition Promise_init :: "'v \<Rightarrow> 'v Promise" where
  "Promise_init dflt =
     \<lparr>holder = \<lparr>mut = False, returned = False, val = dflt, to_resume = []\<rparr>\<rparr>"

text \<open>\<open>struct Task<T>\<close>: its only data member is \<open>handle\<close>.\<close>

record Task =
  handle :: "addr option"

text \<open>
  \<open>struct CoroutineAwaitResume<RETVAL>\<close> and \<open>struct Async<RETVAL>\<close>, which inherits its
  members and constructors.  \<open>pself\<close> points at the holder inside the promise of a frame.
\<close>

record 'v Async =
  pself :: "addr option"
  immediate_value :: 'v
  is_immediate :: bool

text \<open>
  The two constructors.  The one taking a holder leaves \<open>immediate_value\<close>
  default-initialised (the parameter \<open>dflt\<close>).
\<close>

definition Async_immediate :: "'v \<Rightarrow> 'v Async" where
  "Async_immediate immediate =
     \<lparr>pself = None, immediate_value = immediate, is_immediate = True\<rparr>"

definition Async_deferred :: "'v \<Rightarrow> addr \<Rightarrow> 'v Async" where
  "Async_deferred dflt self =
     \<lparr>pself = Some self, immediate_value = dflt, is_immediate = False\<rparr>"

subsection \<open>Suspended coroutines\<close>

text \<open>
  The awaiter in whose \<open>co_await\<close> a coroutine is suspended: a \<open>Task<T>\<close> or an \<open>Async<T>\<close>,
  or one of the two for \<open>T = void\<close>.
\<close>

datatype 'v awaiter =
    On_Task Task
  | On_Async "'v Async"
  | On_Task_void Task
  | On_Async_void "unit Async"

text \<open>
  What the frame of a suspended coroutine says about its resumption: the awaiter whose
  \<open>await_resume()\<close> the coroutine runs first when it is resumed, and the suspension point it
  reaches after that.  \<open>None\<close> there means that the body runs to its end: \<open>final_suspend()\<close>
  does not suspend, so the coroutine then frees its own frame.
\<close>

datatype 'v suspended = Suspended "'v awaiter" "'v suspended option"

subsection \<open>The observable history\<close>

text \<open>
  Every step on a result cell is recorded: taking and releasing its mutex, each read and
  write of one of its three fields, and each \<open>h.resume()\<close>.  An event carries the address
  of the cell and whether that cell's mutex was held at that moment.
\<close>

datatype field = Returned | Value | To_resume

datatype action = Acquire | Release | Read field | Write field | Resume coroutine_handle

datatype event = Event addr action bool

text \<open>
  The state of the program: the frames that hold a promise, the suspended coroutines behind
  the type-erased handles (a handle that is not there has no live frame), the history and
  the counters.
\<close>

record 'v world =
  frames :: "addr \<Rightarrow> 'v Promise option"
  coroutines :: "coroutine_handle \<Rightarrow> 'v suspended option"
  trace :: "event list"
  executor :: ExecutorStats

definition mutex_held :: "'v world \<Rightarrow> addr \<Rightarrow> bool" where
  "mutex_held w c = (case frames w c of None \<Rightarrow> False | Some p \<Rightarrow> mut (holder p))"

definition emit :: "addr \<Rightarrow> action \<Rightarrow> 'v world \<Rightarrow> 'v world" where
  "emit c a w = w\<lparr>trace := trace w @ [Event c a (mutex_held w c)]\<rparr>"

text \<open>Sequencing of steps that may end the process.\<close>

definition andthen :: "fatal + 'a \<Rightarrow> ('a \<Rightarrow> fatal + 'b) \<Rightarrow> fatal + 'b" where
  "andthen m f = (case m of Inl e \<Rightarrow> Inl e | Inr x \<Rightarrow> f x)"

subsection \<open>Primitive steps on a cell\<close>

text \<open>\<open>std::lock_guard<std::mutex> lock(holder.mut)\<close>: construction takes the mutex.\<close>

definition lock_guard :: "addr \<Rightarrow> 'v world \<Rightarrow> fatal + 'v world" where
  "lock_guard c w =
     (case frames w c of
        None \<Rightarrow> Inl Undefined_behaviour
      | Some p \<Rightarrow>
          if mut (holder p) then Inl Deadlock
          else Inr (emit c Acquire
                 (w\<lparr>frames := (frames w)(c \<mapsto> p\<lparr>holder := (holder p)\<lparr>mut := True\<rparr>\<rparr>)\<rparr>)))"

text \<open>The end of the guard's scope releases the mutex.\<close>

definition unlock :: "addr \<Rightarrow> 'v world \<Rightarrow> fatal + 'v world" where
  "unlock c w =
     (case frames w c of
        None \<Rightarrow> Inl Undefined_behaviour
      | Some p \<Rightarrow>
          Inr ((emit c Release w)
                 \<lparr>frames := (frames w)(c \<mapsto> p\<lparr>holder := (holder p)\<lparr>mut := False\<rparr>\<rparr>)\<rparr>))"

text \<open>A read of field \<open>f\<close> of the holder at \<open>c\<close>: the caller selects \<open>f\<close> from the result.\<close>

definition load :: "addr \<Rightarrow> field \<Rightarrow> 'v world \<Rightarrow> fatal + ('v CoroutineRetvalHolder \<times> 'v world)" where
  "load c f w =
     (case frames w c of
        None \<Rightarrow> Inl Undefined_behaviour
      | Some p \<Rightarrow> Inr (holder p, emit c (Read f) w))"

text \<open>A write of field \<open>f\<close> of the holder at \<open>c\<close>; \<open>g\<close> is the update of that field.\<close>

definition store :: "addr \<Rightarrow> field \<Rightarrow> ('v CoroutineRetvalHolder \<Rightarrow> 'v CoroutineRetvalHolder) \<Rightarrow>
    'v world \<Rightarrow> fatal + 'v world" where
  "store c f g w =
     (case frames w c of
        None \<Rightarrow> Inl Undefined_behaviour
      | Some p \<Rightarrow>
          Inr ((emit c (Write f) w)\<lparr>frames := (frames w)(c \<mapsto> p\<lparr>holder := g (holder p)\<rparr>)\<rparr>))"

subsection \<open>await\_resume\<close>

text \<open>
  \<open>CoroutineAwaitResume<RETVAL>::await_resume\<close>: on a deferred awaitable the value is
  handed out only when \<open>returned\<close> is set, otherwise \<open>std::terminate()\<close>.
\<close>

definition CoroutineAwaitResume_await_resume :: "'v Async \<Rightarrow> 'v world \<Rightarrow> fatal + ('v \<times> 'v world)" where
  "CoroutineAwaitResume_await_resume a w =
     (if \<not> is_immediate a then
        (case pself a of
           None \<Rightarrow> Inl Undefined_behaviour
         | Some c \<Rightarrow>
             andthen (lock_guard c w) (\<lambda>w.
             andthen (load c Returned w) (\<lambda>(hld, w).
               if \<not> returned hld then Inl (Terminate [])
               else
                 andthen (load c Value w) (\<lambda>(hld, w).
                 andthen (unlock c w) (\<lambda>w.
                 Inr (val hld, w))))))
      else Inr (immediate_value a, w))"

text \<open>
  \<open>CoroutineAwaitResume<void>::await_resume\<close>: the same test of \<open>returned\<close>, and no value
  to read.
\<close>

definition CoroutineAwaitResume_void_await_resume :: "unit Async \<Rightarrow> 'v world \<Rightarrow>
    fatal + (unit \<times> 'v world)" where
  "CoroutineAwaitResume_void_await_resume a w =
     (if \<not> is_immediate a then
        (case pself a of
           None \<Rightarrow> Inl Undefined_behaviour
         | Some c \<Rightarrow>
             andthen (lock_guard c w) (\<lambda>w.
             andthen (load c Returned w) (\<lambda>(hld, w).
               if \<not> returned hld then Inl (Terminate [])
               else
                 andthen (unlock c w) (\<lambda>w.
                 Inr ((), w)))))
      else Inr ((), w))"

text \<open>
  \<open>Task<T>::await_resume\<close> for a \<open>T\<close> other than \<open>void\<close>:
  \<open>return handle.promise().holder.value;\<close>, no guard and no test of \<open>returned\<close>.
  \<open>handle.promise()\<close> on a null handle, or on a handle whose frame is gone, is undefined.
\<close>

definition Task_await_resume :: "Task \<Rightarrow> 'v world \<Rightarrow> fatal + ('v \<times> 'v world)" where
  "Task_await_resume t w =
     (case handle t of
        None \<Rightarrow> Inl Undefined_behaviour
      | Some c \<Rightarrow> andthen (load c Value w) (\<lambda>(hld, w). Inr (val hld, w)))"

text \<open>\<open>Task<void>::await_resume\<close>: the \<open>if constexpr\<close> branch that only returns.\<close>

definition Task_void_await_resume :: "Task \<Rightarrow> 'v world \<Rightarrow> fatal + (unit \<times> 'v world)" where
  "Task_void_await_resume t w = Inr ((), w)"

subsection \<open>Resuming a continuation\<close>

text \<open>The \<open>await_resume()\<close> that a coroutine suspended on \<open>aw\<close> runs; its value is for the body.\<close>

definition await_resume_of :: "'v awaiter \<Rightarrow> 'v world \<Rightarrow> fatal + 'v world" where
  "await_resume_of aw w =
     (case aw of
        On_Task t \<Rightarrow> map_sum id snd (Task_await_resume t w)
      | On_Async a \<Rightarrow> map_sum id snd (CoroutineAwaitResume_await_resume a w)
      | On_Task_void t \<Rightarrow> map_sum id snd (Task_void_await_resume t w)
      | On_Async_void a \<Rightarrow> map_sum id snd (CoroutineAwaitResume_void_await_resume a w))"

text \<open>
  \<open>h.resume()\<close>, called from an operation on the cell at \<open>c\<close>.  Resuming a handle with no live
  frame behind it is undefined.  Otherwise the coroutine runs on the caller's stack, inside
  whatever guard the caller holds: first the \<open>await_resume()\<close> of the awaiter it was suspended
  on, then its body up to the next suspension point or to its end, where its frame is
  freed.  Of the body, which is not code of these classes, the model keeps only where the
  coroutine stands when \<open>resume()\<close> returns.
\<close>

definition resume :: "addr \<Rightarrow> coroutine_handle \<Rightarrow> 'v world \<Rightarrow> fatal + 'v world" where
  "resume c h w =
     (case coroutines w h of
        None \<Rightarrow> Inl Undefined_behaviour
      | Some s \<Rightarrow>
          (case s of Suspended aw next \<Rightarrow>
             andthen (await_resume_of aw (emit c (Resume h) w)) (\<lambda>w.
             Inr (w\<lparr>coroutines := (coroutines w)(h := next)\<rparr>))))"

text \<open>
  \<open>for (auto& h : holder.to_resume) h.resume();\<close>  When a resumption does not return, the
  later entries are not reached.
\<close>

primrec resume_all :: "addr \<Rightarrow> coroutine_handle list \<Rightarrow> 'v world \<Rightarrow> fatal + 'v world" where
  "resume_all c [] w = Inr w"
| "resume_all c (h # hs) w = andthen (resume c h w) (resume_all c hs)"

section \<open>The operations\<close>

subsection \<open>Promise\<close>

text \<open>
  \<open>Promise<T>::return_value\<close>: the guard spans the whole body, so the loop runs under the
  mutex, which is released after it.
\<close>

definition Promise_return_value :: "addr \<Rightarrow> 'v \<Rightarrow> 'v world \<Rightarrow> fatal + 'v world" where
  "Promise_return_value this v w =
     andthen (lock_guard this w) (\<lambda>w.
     andthen (store this Value (\<lambda>hld. hld\<lparr>val := v\<rparr>) w) (\<lambda>w.
     andthen (store this Returned (\<lambda>hld. hld\<lparr>returned := True\<rparr>) w) (\<lambda>w.
     andthen (load this To_resume w) (\<lambda>(hld, w).
     andthen (resume_all this (to_resume hld) w) (\<lambda>w.
     unlock this w)))))"

text \<open>\<open>Promise<void>::return_void\<close>.\<close>

definition Promise_return_void :: "addr \<Rightarrow> unit world \<Rightarrow> fatal + unit world" where
  "Promise_return_void this w =
     andthen (lock_guard this w) (\<lambda>w.
     andthen (store this Returned (\<lambda>hld. hld\<lparr>returned := True\<rparr>) w) (\<lambda>w.
     andthen (load this To_resume w) (\<lambda>(hld, w).
     andthen (resume_all this (to_resume hld) w) (\<lambda>w.
     unlock this w))))"

text \<open>\<open>Promise<T>::get_return_object\<close>: a task whose handle is the promise's own frame.\<close>

definition Promise_get_return_object :: "addr \<Rightarrow> Task" where
  "Promise_get_return_object this = \<lparr>handle = Some this\<rparr>"

subsection \<open>Async\<close>

text \<open>The three increment hooks of the \<open>TELEMETRY\<close> build.\<close>

definition bump_awaitable_ready :: "'v world \<Rightarrow> 'v world" where
  "bump_awaitable_ready w =
     w\<lparr>executor := (executor w)\<lparr>total_awaitable_ready := total_awaitable_ready (executor w) + 1\<rparr>\<rparr>"

definition bump_awaitable_need_to_wait :: "'v world \<Rightarrow> 'v world" where
  "bump_awaitable_need_to_wait w =
     w\<lparr>executor := (executor w)
        \<lparr>total_awaitable_need_to_wait := total_awaitable_need_to_wait (executor w) + 1\<rparr>\<rparr>"

definition bump_immediate_ready :: "'v world \<Rightarrow> 'v world" where
  "bump_immediate_ready w =
     w\<lparr>executor := (executor w)\<lparr>total_immediate_ready := total_immediate_ready (executor w) + 1\<rparr>\<rparr>"

text \<open>
  \<open>Async<RETVAL>::await_ready\<close>.  The first argument says whether the translation unit was
  compiled with \<open>TELEMETRY\<close> defined; both preprocessor branches are kept.
\<close>

definition Async_await_ready :: "bool \<Rightarrow> 'v Async \<Rightarrow> 'v world \<Rightarrow> fatal + (bool \<times> 'v world)" where
  "Async_await_ready TELEMETRY a w =
     (if \<not> is_immediate a then
        (case pself a of
           None \<Rightarrow> Inl Undefined_behaviour
         | Some c \<Rightarrow>
             andthen (lock_guard c w) (\<lambda>w.
             andthen (load c Returned w) (\<lambda>(hld, w).
               if \<not> TELEMETRY then
                 andthen (unlock c w) (\<lambda>w. Inr (returned hld, w))
               else if returned hld then
                 andthen (unlock c (bump_awaitable_ready w)) (\<lambda>w. Inr (True, w))
               else
                 andthen (unlock c (bump_awaitable_need_to_wait w)) (\<lambda>w. Inr (False, w)))))
      else Inr (True, if TELEMETRY then bump_immediate_ready w else w))"

text \<open>
  \<open>Async<RETVAL>::await_suspend\<close>.  On an immediate value it prints the message (and a
  line end) and calls \<open>std::terminate()\<close>.
\<close>

definition Async_await_suspend :: "'v Async \<Rightarrow> coroutine_handle \<Rightarrow> 'v world \<Rightarrow> fatal + 'v world" where
  "Async_await_suspend a h w =
     (if \<not> is_immediate a then
        (case pself a of
           None \<Rightarrow> Inl Undefined_behaviour
         | Some c \<Rightarrow>
             andthen (lock_guard c w) (\<lambda>w.
             andthen (load c Returned w) (\<lambda>(hld, w).
               if returned hld then andthen (resume c h w) (unlock c)
               else
                 andthen (store c To_resume (\<lambda>hld. hld\<lparr>to_resume := to_resume hld @ [h]\<rparr>) w)
                   (unlock c))))
      else Inl (Terminate ''FATAL: Should never attempt to `await_suspend` an immediate value.''))"

subsection \<open>Task\<close>

text \<open>
  In every member below, \<open>handle.promise()\<close> on a null handle, or on a handle whose frame is
  gone, is undefined.

  \<open>Task(Task&& rhs)\<close>: the new task and what is left of \<open>rhs\<close>.  The copy constructor is
  deleted, so there is no operation that duplicates a task.
\<close>

definition Task_move :: "Task \<Rightarrow> Task \<times> Task" where
  "Task_move rhs = (\<lparr>handle = handle rhs\<rparr>, rhs\<lparr>handle := None\<rparr>)"

text \<open>
  \<open>handle.destroy()\<close>: ends the lifetime of the frame at \<open>c\<close>, with the promise and the
  holder in it.  Destroying a frame that is not there is undefined.
\<close>

definition coroutine_destroy :: "addr \<Rightarrow> 'v world \<Rightarrow> fatal + 'v world" where
  "coroutine_destroy c w =
     (case frames w c of
        None \<Rightarrow> Inl Undefined_behaviour
      | Some p \<Rightarrow> Inr (w\<lparr>frames := (frames w)(c := None)\<rparr>))"

text \<open>\<open>Task<T>::~Task\<close>: \<open>if (handle) handle.destroy();\<close>\<close>

definition Task_dtor :: "Task \<Rightarrow> 'v world \<Rightarrow> fatal + 'v world" where
  "Task_dtor t w =
     (case handle t of
        None \<Rightarrow> Inr w
      | Some c \<Rightarrow> coroutine_destroy c w)"

text \<open>\<open>Task<T>::await_ready\<close>: \<open>return handle.promise().holder.returned;\<close>, no guard.\<close>

definition Task_await_ready :: "Task \<Rightarrow> 'v world \<Rightarrow> fatal + (bool \<times> 'v world)" where
  "Task_await_ready t w =
     (case handle t of
        None \<Rightarrow> Inl Undefined_behaviour
      | Some c \<Rightarrow> andthen (load c Returned w) (\<lambda>(hld, w). Inr (returned hld, w)))"

text \<open>\<open>Task<T>::await_suspend\<close>.\<close>

definition Task_await_suspend :: "Task \<Rightarrow> coroutine_handle \<Rightarrow> 'v world \<Rightarrow> fatal + 'v world" where
  "Task_await_suspend t h w =
     (case handle t of
        None \<Rightarrow> Inl Undefined_behaviour
      | Some c \<Rightarrow>
          andthen (lock_guard c w) (\<lambda>w.
          andthen (load c Returned w) (\<lambda>(hld, w).
            if returned hld then andthen (resume c h w) (unlock c)
            else
              andthen (store c To_resume (\<lambda>hld. hld\<lparr>to_resume := to_resume hld @ [h]\<rparr>) w)
                (unlock c))))"

subsection \<open>How a coroutine body ends\<close>

text \<open>
  \<open>initial_suspend\<close> and \<open>final_suspend\<close> of both promises return \<open>std::suspend_never\<close>,
  whose \<open>await_ready()\<close> is \<open>true\<close>; \<open>std::suspend_always\<close> answers \<open>false\<close>.
\<close>

datatype suspend = suspend_never | suspend_always

primrec suspend_await_ready :: "suspend \<Rightarrow> bool" where
  "suspend_await_ready suspend_never = True"
| "suspend_await_ready suspend_always = False"

definition Promise_initial_suspend :: suspend where
  "Promise_initial_suspend = suspend_never"

definition Promise_final_suspend :: suspend where
  "Promise_final_suspend = suspend_never"

text \<open>
  \<open>co_return v;\<close> in the coroutine whose frame is \<open>this\<close>: the language calls
  \<open>return_value(v)\<close> and then awaits \<open>final_suspend()\<close>.  When that awaitable is ready the
  coroutine does not suspend there: it runs off its end and its frame is destroyed.
\<close>

definition co_return :: "addr \<Rightarrow> 'v \<Rightarrow> 'v world \<Rightarrow> fatal + 'v world" where
  "co_return this v w =
     andthen (Promise_return_value this v w) (\<lambda>w.
       if suspend_await_ready Promise_final_suspend then coroutine_destroy this w
       else Inr w)"

text \<open>
  \<open>Task<int> foo() { co_return 42; }\<close> called when the frame is allocated at \<open>a\<close>: the promise
  is constructed in the frame, \<open>get_return_object()\<close> makes the task, \<open>initial_suspend()\<close> is
  ready, so the body runs at once, up to its end.  \<open>dflt\<close> is the content of the
  default-initialised \<open>int value\<close>.
\<close>

definition foo :: "32 word \<Rightarrow> addr \<Rightarrow> 32 word world \<Rightarrow> fatal + (Task \<times> 32 word world)" where
  "foo dflt a w =
     (let w1 = w\<lparr>frames := (frames w)(a \<mapsto> Promise_init dflt)\<rparr>;
          t = Promise_get_return_object a
      in if suspend_await_ready Promise_initial_suspend
         then andthen (co_return a 42 w1) (\<lambda>w2. Inr (t, w2))
         else Inr (t, w1))"

section \<open>Observations on histories and states\<close>


text \<open>The continuations resumed in a history, in the order of their resumption.\<close>

definition resumed :: "event list \<Rightarrow> coroutine_handle list" where
  "resumed tr =
     concat (map (\<lambda>e. case e of Event c a b \<Rightarrow> (case a of Resume h \<Rightarrow> [h] | _ \<Rightarrow> [])) tr)"

text \<open>Every resumption in the history happened while the cell's mutex was free.\<close>

definition resumes_outside_lock :: "event list \<Rightarrow> bool" where
  "resumes_outside_lock tr =
     list_all (\<lambda>e. case e of Event c a b \<Rightarrow> (case a of Resume h \<Rightarrow> \<not> b | _ \<Rightarrow> True)) tr"

text \<open>Every read and write of a field in the history happened while the cell's mutex was held.\<close>

definition accesses_guarded :: "event list \<Rightarrow> bool" where
  "accesses_guarded tr =
     list_all (\<lambda>e. case e of Event c a b \<Rightarrow>
        (case a of Read f \<Rightarrow> b | Write f \<Rightarrow> b | _ \<Rightarrow> True)) tr"

text \<open>The cell at \<open>c\<close>, when its frame is alive.\<close>

definition cell :: "'v world \<Rightarrow> addr \<Rightarrow> 'v CoroutineRetvalHolder option" where
  "cell w c = map_option holder (frames w c)"

text \<open>The frame at \<open>c\<close> is alive and its cell is completed.\<close>

definition completed :: "'v world \<Rightarrow> addr \<Rightarrow> bool" where
  "completed w c = (case frames w c of None \<Rightarrow> False | Some p \<Rightarrow> returned (holder p))"

text \<open>
  Coroutines \<open>W1, ..., WN\<close> suspend one after the other on the same awaitable, whose
  \<open>await_suspend\<close> is \<open>susp\<close>.
\<close>

primrec register_all :: "(coroutine_handle \<Rightarrow> 'v world \<Rightarrow> fatal + 'v world) \<Rightarrow>
    coroutine_handle list \<Rightarrow> 'v world \<Rightarrow> fatal + 'v world" where
  "register_all susp [] w = Inr w"
| "register_all susp (h # hs) w = andthen (susp h w) (register_all susp hs)"

text \<open>What a caller sees of a result: the value, the frames and the history.\<close>

definition seen :: "fatal + ('a \<times> 'v world) \<Rightarrow> fatal + ('a \<times> (addr \<Rightarrow> 'v Promise option) \<times> event list)" where
  "seen r = map_sum id (\<lambda>(x, w). (x, frames w, trace w)) r"

definition seen_world :: "fatal + 'v world \<Rightarrow> fatal + ((addr \<Rightarrow> 'v Promise option) \<times> event list)" where
  "seen_world r = map_sum id (\<lambda>w. (frames w, trace w)) r"

text \<open>The value and the history alone.\<close>

definition answer :: "fatal + ('a \<times> 'v world) \<Rightarrow> fatal + ('a \<times> event list)" where
  "answer r = map_sum id (\<lambda>(x, w). (x, trace w)) r"

text \<open>
  When the operation returned and the frame at \<open>c\<close> is still alive, its cell is completed.
\<close>

definition flag_kept :: "addr \<Rightarrow> fatal + 'v world \<Rightarrow> bool" where
  "flag_kept c r =
     (case r of
        Inl e \<Rightarrow> True
      | Inr w \<Rightarrow> (case frames w c of None \<Rightarrow> True | Some p \<Rightarrow> returned (holder p)))"

text \<open>
  Concrete states: no frame at all, a single frame at \<open>a\<close> holding promise \<open>p\<close>, and a state
  with one more suspended coroutine \<open>h\<close>.
\<close>

definition no_frames :: "'v world" where
  "no_frames =
     \<lparr>frames = (\<lambda>a. None), coroutines = (\<lambda>h. None), trace = [],
      executor = \<lparr>total_awaitable_ready = 0, total_awaitable_need_to_wait = 0,
                  total_immediate_ready = 0\<rparr>\<rparr>"

definition one_frame :: "addr \<Rightarrow> 'v Promise \<Rightarrow> 'v world" where
  "one_frame a p = no_frames\<lparr>frames := (\<lambda>a. None)(a \<mapsto> p)\<rparr>"

definition with_coroutine :: "coroutine_handle \<Rightarrow> 'v suspended \<Rightarrow> 'v world \<Rightarrow> 'v world" where
  "with_coroutine h s w = w\<lparr>coroutines := (coroutines w)(h \<mapsto> s)\<rparr>"

text \<open>A promise that was completed with \<open>v\<close>, and a promise on which the continuations \<open>hs\<close> wait.\<close>

definition Promise_completed :: "'v \<Rightarrow> 'v Promise" where
  "Promise_completed v =
     \<lparr>holder = \<lparr>mut = False, returned = True, val = v, to_resume = []\<rparr>\<rparr>"

definition Promise_waiting :: "'v \<Rightarrow> coroutine_handle list \<Rightarrow> 'v Promise" where
  "Promise_waiting dflt hs =
     \<lparr>holder = \<lparr>mut = False, returned = False, val = dflt, to_resume = hs\<rparr>\<rparr>"

section \<open>What each operation does on a live cell whose mutex is free\<close>

lemma Promise_return_value_quiet:
  assumes "frames w c = Some p" and "\<not> mut (holder p)" and "to_resume (holder p) = []"
  shows "Promise_return_value c v w =
    Inr (w\<lparr>trace := trace w @ [Event c Acquire True, Event c (Write Value) True,
                      Event c (Write Returned) True, Event c (Read To_resume) True,
                      Event c Release True],
           frames := (frames w)(c \<mapsto>
             p\<lparr>holder := (holder p)\<lparr>val := v, returned := True, mut := False\<rparr>\<rparr>)\<rparr>)"
  using assms
  by (simp add: Promise_return_value_def andthen_def lock_guard_def store_def load_def unlock_def
      emit_def mutex_held_def)

lemma Async_await_ready_run:
  assumes "frames w c = Some p" and "\<not> mut (holder p)"
  shows "Async_await_ready tel (Async_deferred d c) w =
    Inr (returned (holder p),
      (if tel then if returned (holder p) then bump_awaitable_ready
                   else bump_awaitable_need_to_wait
       else id)
      (w\<lparr>trace := trace w @ [Event c Acquire True, Event c (Read Returned) True,
                      Event c Release True],
         frames := (frames w)(c \<mapsto> p\<lparr>holder := (holder p)\<lparr>mut := False\<rparr>\<rparr>)\<rparr>))"
  using assms
  by (simp add: Async_await_ready_def Async_deferred_def andthen_def lock_guard_def load_def
      unlock_def emit_def mutex_held_def bump_awaitable_ready_def bump_awaitable_need_to_wait_def)

lemma CoroutineAwaitResume_await_resume_run:
  assumes "frames w c = Some p" and "\<not> mut (holder p)"
  shows "CoroutineAwaitResume_await_resume (Async_deferred d c) w =
    (if returned (holder p) then
       Inr (val (holder p),
         w\<lparr>trace := trace w @ [Event c Acquire True, Event c (Read Returned) True,
                      Event c (Read Value) True, Event c Release True],
           frames := (frames w)(c \<mapsto> p\<lparr>holder := (holder p)\<lparr>mut := False\<rparr>\<rparr>)\<rparr>)
     else Inl (Terminate []))"
  using assms
  by (simp add: CoroutineAwaitResume_await_resume_def Async_deferred_def andthen_def
      lock_guard_def load_def unlock_def emit_def mutex_held_def)

lemma CoroutineAwaitResume_void_await_resume_run:
  assumes "frames w c = Some p" and "\<not> mut (holder p)"
  shows "CoroutineAwaitResume_void_await_resume (Async_deferred d c) w =
    (if returned (holder p) then
       Inr ((),
         w\<lparr>trace := trace w @ [Event c Acquire True, Event c (Read Returned) True,
                      Event c Release True],
           frames := (frames w)(c \<mapsto> p\<lparr>holder := (holder p)\<lparr>mut := False\<rparr>\<rparr>)\<rparr>)
     else Inl (Terminate []))"
  using assms
  by (simp add: CoroutineAwaitResume_void_await_resume_def Async_deferred_def andthen_def
      lock_guard_def load_def unlock_def emit_def mutex_held_def)

lemma Task_await_ready_run:
  assumes "frames w c = Some p"
  shows "Task_await_ready \<lparr>handle = Some c\<rparr> w =
    Inr (returned (holder p), w\<lparr>trace := trace w @ [Event c (Read Returned) (mut (holder p))]\<rparr>)"
  using assms
  by (simp add: Task_await_ready_def andthen_def load_def emit_def mutex_held_def)

lemma Task_await_resume_run:
  assumes "frames w c = Some p"
  shows "Task_await_resume \<lparr>handle = Some c\<rparr> w =
    Inr (val (holder p), w\<lparr>trace := trace w @ [Event c (Read Value) (mut (holder p))]\<rparr>)"
  using assms
  by (simp add: Task_await_resume_def andthen_def load_def emit_def mutex_held_def)

section \<open>Readiness of an awaitable\<close>




section \<open>Ownership of the frame\<close>

text \<open>
  Claim C9.  The copy constructor of \<open>Task\<close> is deleted, and the embedding has no operation
  that copies a task.  Move construction hands the handle to the new task and leaves the
  source with a null handle; destroying the moved-from task then destroys nothing: the
  destructor returns with every frame as it was.
\<close>

theorem moved_from_task_is_inert:
  "handle (fst (Task_move t)) = handle t
   \<and> handle (snd (Task_move t)) = None
   \<and> Task_dtor (snd (Task_move t)) w = Inr w"
  by (simp add: Task_move_def Task_dtor_def)

section \<open>Reading a task's result\<close>

text \<open>
  Claim C2 does not hold of the code.  On a task whose cell was completed with \<open>42\<close>,
  \<open>Task::await_ready\<close> reads \<open>returned\<close> and \<open>Task::await_resume\<close> reads \<open>value\<close> while the
  cell's mutex is not held; neither takes the mutex.  \<open>Async::await_ready\<close> and
  \<open>CoroutineAwaitResume::await_resume\<close> on the same cell read the same fields between
  taking and releasing it.
\<close>

theorem Task_reads_cell_without_mutex:
  "answer (Task_await_ready \<lparr>handle = Some 0\<rparr> (one_frame 0 (Promise_completed (42::32 word))))
     = Inr (True, [Event 0 (Read Returned) False])
   \<and> answer (Task_await_resume \<lparr>handle = Some 0\<rparr> (one_frame 0 (Promise_completed (42::32 word))))
     = Inr (42, [Event 0 (Read Value) False])
   \<and> \<not> accesses_guarded [Event 0 (Read Returned) False]
   \<and> \<not> accesses_guarded [Event 0 (Read Value) False]
   \<and> answer (Async_await_ready False (Async_deferred 0 0) (one_frame 0 (Promise_completed (42::32 word))))
     = Inr (True, [Event 0 Acquire True, Event 0 (Read Returned) True, Event 0 Release True])
   \<and> answer (CoroutineAwaitResume_await_resume (Async_deferred 0 0)
         (one_frame 0 (Promise_completed (42::32 word))))
     = Inr (42, [Event 0 Acquire True, Event 0 (Read Returned) True, Event 0 (Read Value) True,
                 Event 0 Release True])
   \<and> accesses_guarded
        [Event 0 Acquire True, Event 0 (Read Returned) True, Event 0 (Read Value) True,
         Event 0 Release True]"
  by (simp add: answer_def accesses_guarded_def one_frame_def no_frames_def Promise_completed_def
      Task_await_ready_run [where p = "Promise_completed 42"]
      Task_await_resume_run [where p = "Promise_completed 42"]
      Async_await_ready_run [where p = "Promise_completed 42"]
      CoroutineAwaitResume_await_resume_run [where p = "Promise_completed 42"])

text \<open>
  Claim C3 does not hold of the code.  On a task whose cell is not completed,
  \<open>Task::await_resume\<close> returns: it hands out the default-initialised \<open>value\<close> (here \<open>0\<close>)
  without looking at \<open>returned\<close>, and \<open>Task<void>::await_resume\<close> returns as well.
  \<open>CoroutineAwaitResume::await_resume\<close> on the same cell ends in \<open>std::terminate()\<close>.
\<close>

theorem Task_await_resume_before_completion:
  "answer (Task_await_resume \<lparr>handle = Some 0\<rparr> (one_frame 0 (Promise_init (0::32 word))))
     = Inr (0, [Event 0 (Read Value) False])
   \<and> answer (Task_void_await_resume \<lparr>handle = Some 0\<rparr> (one_frame 0 (Promise_init ())))
     = Inr ((), [])
   \<and> \<not> completed (one_frame 0 (Promise_init (0::32 word))) 0
   \<and> \<not> completed (one_frame 0 (Promise_init ())) 0
   \<and> CoroutineAwaitResume_await_resume (Async_deferred 0 0) (one_frame 0 (Promise_init (0::32 word)))
     = Inl (Terminate [])
   \<and> CoroutineAwaitResume_void_await_resume (Async_deferred () 0) (one_frame 0 (Promise_init ()))
     = Inl (Terminate [])"
  by (simp add: answer_def completed_def one_frame_def no_frames_def Promise_init_def
      Task_void_await_resume_def
      Task_await_resume_run [where p = "Promise_init 0"]
      CoroutineAwaitResume_await_resume_run [where p = "Promise_init 0"]
      CoroutineAwaitResume_void_await_resume_run [where p = "Promise_init ()"])

section \<open>Destroying a task\<close>

lemma Task_dtor_live:
  "frames w c = Some p \<Longrightarrow>
   Task_dtor \<lparr>handle = Some c\<rparr> w = Inr (w\<lparr>frames := (frames w)(c := None)\<rparr>)"
  by (simp add: Task_dtor_def coroutine_destroy_def)

lemma frames_no_frames: "frames no_frames a = None"
  by (simp add: no_frames_def)

lemma foo_run:
  "foo dflt 0 no_frames =
     Inr (\<lparr>handle = Some 0\<rparr>,
       no_frames\<lparr>trace := [Event 0 Acquire True, Event 0 (Write Value) True,
                      Event 0 (Write Returned) True, Event 0 (Read To_resume) True,
                      Event 0 Release True]\<rparr>)"
  by (simp add: foo_def co_return_def Promise_initial_suspend_def Promise_final_suspend_def
      Promise_get_return_object_def coroutine_destroy_def andthen_def no_frames_def Promise_init_def
      Promise_return_value_quiet [where p = "Promise_init dflt"])

text \<open>
  Claim C5 does not hold of the code for a task whose body has run to completion.
  \<open>foo()\<close> runs \<open>co_return 42\<close> before it returns; \<open>final_suspend()\<close> is \<open>suspend_never\<close>, so the
  frame, with the promise and the result cell in it, is destroyed when the body ends.  The
  task that \<open>foo()\<close> returns still holds the handle of that frame, and its destructor calls
  \<open>destroy()\<close> on it: there is no frame left to destroy, and the call is undefined.
\<close>

theorem Task_dtor_after_completion:
  "map_sum id (\<lambda>(t, w). (t, frames w 0)) (foo 0 0 no_frames) = Inr (\<lparr>handle = Some 0\<rparr>, None)
   \<and> andthen (foo 0 0 no_frames) (\<lambda>(t, w). Task_dtor t w) = Inl Undefined_behaviour
   \<and> andthen (foo 0 0 no_frames) (\<lambda>(t, w). Task_await_ready t w) = Inl Undefined_behaviour"
  by (simp add: foo_run andthen_def Task_dtor_def coroutine_destroy_def Task_await_ready_def
      load_def frames_no_frames)

section \<open>Telemetry\<close>

lemma andthen_map_sum:
  "andthen (map_sum id f m) g = andthen m (\<lambda>x. g (f x))"
  by (cases m) (simp_all add: andthen_def)

lemma map_sum_andthen:
  "map_sum id f (andthen m g) = andthen m (\<lambda>x. map_sum id f (g x))"
  by (cases m) (simp_all add: andthen_def)

lemma emit_executor: "emit c a (w\<lparr>executor := s\<rparr>) = (emit c a w)\<lparr>executor := s\<rparr>"
  by (simp add: emit_def mutex_held_def)

lemma lock_guard_executor:
  "lock_guard c (w\<lparr>executor := s\<rparr>) = map_sum id (\<lambda>w'. w'\<lparr>executor := s\<rparr>) (lock_guard c w)"
  by (simp add: lock_guard_def emit_def mutex_held_def split: option.splits)

lemma unlock_executor:
  "unlock c (w\<lparr>executor := s\<rparr>) = map_sum id (\<lambda>w'. w'\<lparr>executor := s\<rparr>) (unlock c w)"
  by (simp add: unlock_def emit_def mutex_held_def split: option.splits)

lemma load_executor:
  "load c f (w\<lparr>executor := s\<rparr>) =
     map_sum id (\<lambda>(x, w'). (x, w'\<lparr>executor := s\<rparr>)) (load c f w)"
  by (simp add: load_def emit_def mutex_held_def split: option.splits)

lemma store_executor:
  "store c f g (w\<lparr>executor := s\<rparr>) = map_sum id (\<lambda>w'. w'\<lparr>executor := s\<rparr>) (store c f g w)"
  by (simp add: store_def emit_def mutex_held_def split: option.splits)

lemmas prim_executor =
  lock_guard_executor unlock_executor load_executor store_executor andthen_map_sum map_sum_andthen

lemma CoroutineAwaitResume_await_resume_executor:
  "CoroutineAwaitResume_await_resume a (w\<lparr>executor := s\<rparr>) =
     map_sum id (\<lambda>(x, w'). (x, w'\<lparr>executor := s\<rparr>)) (CoroutineAwaitResume_await_resume a w)"
  by (auto simp: CoroutineAwaitResume_await_resume_def prim_executor split_def
      split: option.splits intro!: arg_cong2[where f = andthen] ext)

lemma CoroutineAwaitResume_void_await_resume_executor:
  "CoroutineAwaitResume_void_await_resume a (w\<lparr>executor := s\<rparr>) =
     map_sum id (\<lambda>(x, w'). (x, w'\<lparr>executor := s\<rparr>)) (CoroutineAwaitResume_void_await_resume a w)"
  by (auto simp: CoroutineAwaitResume_void_await_resume_def prim_executor split_def
      split: option.splits intro!: arg_cong2[where f = andthen] ext)

lemma Task_await_resume_executor:
  "Task_await_resume t (w\<lparr>executor := s\<rparr>) =
     map_sum id (\<lambda>(x, w'). (x, w'\<lparr>executor := s\<rparr>)) (Task_await_resume t w)"
  by (auto simp: Task_await_resume_def prim_executor split_def
      split: option.splits intro!: arg_cong2[where f = andthen] ext)

lemma Task_await_ready_executor:
  "Task_await_ready t (w\<lparr>executor := s\<rparr>) =
     map_sum id (\<lambda>(x, w'). (x, w'\<lparr>executor := s\<rparr>)) (Task_await_ready t w)"
  by (auto simp: Task_await_ready_def prim_executor split_def
      split: option.splits intro!: arg_cong2[where f = andthen] ext)

lemma map_sum_snd_executor:
  "map_sum id snd (map_sum id (\<lambda>(x, w'). (g x, f w')) r) = map_sum id f (map_sum id snd r)"
  by (cases r) (simp_all add: split_def)

lemma await_resume_of_executor:
  "await_resume_of aw (w\<lparr>executor := s\<rparr>) =
     map_sum id (\<lambda>w'. w'\<lparr>executor := s\<rparr>) (await_resume_of aw w)"
  by (cases aw)
    (simp_all add: await_resume_of_def CoroutineAwaitResume_await_resume_executor
      CoroutineAwaitResume_void_await_resume_executor Task_await_resume_executor
      Task_void_await_resume_def map_sum_snd_executor)

lemma resume_executor:
  "resume c h (w\<lparr>executor := s\<rparr>) = map_sum id (\<lambda>w'. w'\<lparr>executor := s\<rparr>) (resume c h w)"
proof (cases "coroutines w h")
  case None
  then show ?thesis by (simp add: resume_def)
next
  case (Some sp)
  obtain aw nxt where sp: "sp = Suspended aw nxt" by (cases sp)
  show ?thesis
    using Some sp
    by (cases "await_resume_of aw (emit c (Resume h) w)")
      (simp_all add: resume_def emit_executor await_resume_of_executor andthen_def)
qed

lemma resume_all_executor:
  "resume_all c hs (w\<lparr>executor := s\<rparr>) =
     map_sum id (\<lambda>w'. w'\<lparr>executor := s\<rparr>) (resume_all c hs w)"
  by (induction hs arbitrary: w) (simp_all add: resume_executor prim_executor)

lemma Promise_return_value_executor:
  "Promise_return_value c v (w\<lparr>executor := s\<rparr>) =
     map_sum id (\<lambda>w'. w'\<lparr>executor := s\<rparr>) (Promise_return_value c v w)"
  by (simp add: Promise_return_value_def prim_executor resume_all_executor split_def)

lemma Promise_return_void_executor:
  "Promise_return_void c (u\<lparr>executor := s\<rparr>) =
     map_sum id (\<lambda>w'. w'\<lparr>executor := s\<rparr>) (Promise_return_void c u)"
  by (simp add: Promise_return_void_def prim_executor resume_all_executor split_def)

lemma Task_await_suspend_executor:
  "Task_await_suspend t h (w\<lparr>executor := s\<rparr>) =
     map_sum id (\<lambda>w'. w'\<lparr>executor := s\<rparr>) (Task_await_suspend t h w)"
  by (auto simp: Task_await_suspend_def prim_executor resume_executor split_def
      split: option.splits intro!: arg_cong2[where f = andthen] ext)

lemma Async_await_suspend_executor:
  "Async_await_suspend a h (w\<lparr>executor := s\<rparr>) =
     map_sum id (\<lambda>w'. w'\<lparr>executor := s\<rparr>) (Async_await_suspend a h w)"
  by (auto simp: Async_await_suspend_def prim_executor resume_executor split_def
      split: option.splits intro!: arg_cong2[where f = andthen] ext)

lemma seen_world_executor: "seen_world (map_sum id (\<lambda>w'. w'\<lparr>executor := s\<rparr>) r) = seen_world r"
  by (cases r) (simp_all add: seen_world_def)

lemma seen_executor:
  "seen (map_sum id (\<lambda>(x, w'). (x, w'\<lparr>executor := s\<rparr>)) r) = seen r"
  by (cases r) (auto simp: seen_def)

lemma executor_not_read:
  "seen_world (Promise_return_value c v (w\<lparr>executor := s\<rparr>)) =
     seen_world (Promise_return_value c v w)"
  "seen_world (Promise_return_void c (u\<lparr>executor := s\<rparr>)) = seen_world (Promise_return_void c u)"
  "seen_world (Async_await_suspend a h (w\<lparr>executor := s\<rparr>)) =
     seen_world (Async_await_suspend a h w)"
  "seen_world (Task_await_suspend t h (w\<lparr>executor := s\<rparr>)) =
     seen_world (Task_await_suspend t h w)"
  "seen (CoroutineAwaitResume_await_resume a (w\<lparr>executor := s\<rparr>)) =
     seen (CoroutineAwaitResume_await_resume a w)"
  "seen (Task_await_ready t (w\<lparr>executor := s\<rparr>)) = seen (Task_await_ready t w)"
  "seen (Task_await_resume t (w\<lparr>executor := s\<rparr>)) = seen (Task_await_resume t w)"
  by (simp_all add: Promise_return_value_executor Promise_return_void_executor
      Async_await_suspend_executor Task_await_suspend_executor
      CoroutineAwaitResume_await_resume_executor Task_await_ready_executor
      Task_await_resume_executor seen_world_executor seen_executor)

lemma await_ready_telemetry:
  "seen (Async_await_ready True a w) = seen (Async_await_ready False a w)"
  "seen (Async_await_ready tel a (w\<lparr>executor := s\<rparr>)) = seen (Async_await_ready tel a w)"
  "map_sum id (\<lambda>(b, w'). executor w') (Async_await_ready False a w) =
     map_sum id (\<lambda>(b, w'). executor w) (Async_await_ready False a w)"
  by (auto simp: seen_def Async_await_ready_def andthen_def lock_guard_def load_def unlock_def
      emit_def mutex_held_def bump_awaitable_ready_def bump_awaitable_need_to_wait_def
      bump_immediate_ready_def split: option.splits)

text \<open>
  Claim C10.  \<open>Async::await_ready\<close> is the only operation with code under \<open>TELEMETRY\<close>.  For
  every awaitable and every state, what it returns (the boolean or the fatal end), the
  frames and the history are the same in the build with \<open>TELEMETRY\<close> and in the build
  without, and they do not depend on the counters' values; the build without leaves the
  counters alone.  No other operation reads the counters: its result, the frames and the
  history are the same whatever the counters hold.
\<close>

theorem telemetry_never_gates:
  "seen (Async_await_ready True a w) = seen (Async_await_ready False a w)
   \<and> seen (Async_await_ready tel a (w\<lparr>executor := s\<rparr>)) = seen (Async_await_ready tel a w)
   \<and> map_sum id (\<lambda>(b, w'). executor w') (Async_await_ready False a w) =
       map_sum id (\<lambda>(b, w'). executor w) (Async_await_ready False a w)
   \<and> seen_world (Promise_return_value c v (w\<lparr>executor := s\<rparr>)) =
       seen_world (Promise_return_value c v w)
   \<and> seen_world (Promise_return_void c (u\<lparr>executor := s\<rparr>)) =
       seen_world (Promise_return_void c u)
   \<and> seen_world (Async_await_suspend a h (w\<lparr>executor := s\<rparr>)) =
       seen_world (Async_await_suspend a h w)
   \<and> seen_world (Task_await_suspend t h (w\<lparr>executor := s\<rparr>)) =
       seen_world (Task_await_suspend t h w)
   \<and> seen (CoroutineAwaitResume_await_resume a (w\<lparr>executor := s\<rparr>)) =
       seen (CoroutineAwaitResume_await_resume a w)
   \<and> seen (Task_await_ready t (w\<lparr>executor := s\<rparr>)) = seen (Task_await_ready t w)
   \<and> seen (Task_await_resume t (w\<lparr>executor := s\<rparr>)) = seen (Task_await_resume t w)"
  by (simp only: executor_not_read await_ready_telemetry simp_thms)

section \<open>Where the continuations run\<close>

lemmas run_defs =
  Promise_return_value_def Promise_return_void_def Async_await_suspend_def Task_await_suspend_def
  CoroutineAwaitResume_await_resume_def CoroutineAwaitResume_void_await_resume_def
  Task_await_resume_def Task_void_await_resume_def Task_await_ready_def Async_await_ready_def
  await_resume_of_def resume_def andthen_def lock_guard_def unlock_def load_def store_def
  emit_def mutex_held_def co_return_def coroutine_destroy_def Promise_final_suspend_def

lemmas state_defs =
  one_frame_def no_frames_def with_coroutine_def Promise_init_def Promise_waiting_def
  Promise_completed_def Async_deferred_def Async_immediate_def

text \<open>
  Claim C1 does not hold of the code.  \<open>return_value\<close> and \<open>return_void\<close> call \<open>h.resume()\<close>
  inside their \<open>lock_guard\<close>; the waiter list is not swapped out.  When the waiter \<open>7\<close> is
  suspended in a \<open>co_await\<close> on a deferred \<open>Async\<close> of the cell, the resumed coroutine runs
  \<open>CoroutineAwaitResume::await_resume\<close>, which takes the mutex that the publish still holds:
  the publish never returns.  When \<open>7\<close> is suspended on the \<open>Task\<close>, whose \<open>await_resume\<close>
  takes no mutex, the publish returns, and its history shows the resumption and the
  waiter's read of \<open>value\<close> while the mutex is held, the release after them, and \<open>7\<close> still
  listed in \<open>to_resume\<close>.
\<close>

theorem return_value_resumes_inside_its_guard:
  "Promise_return_value 0 42
      (with_coroutine 7 (Suspended (On_Async (Async_deferred 0 0)) None)
        (one_frame 0 (Promise_waiting (0::32 word) [7]))) = Inl Deadlock
   \<and> Promise_return_void 0
      (with_coroutine 7 (Suspended (On_Async_void (Async_deferred () 0)) None)
        (one_frame 0 (Promise_waiting () [7]))) = Inl Deadlock
   \<and> map_sum id trace (Promise_return_value 0 42
      (with_coroutine 7 (Suspended (On_Task \<lparr>handle = Some 0\<rparr>) None)
        (one_frame 0 (Promise_waiting (0::32 word) [7])))) =
     Inr [Event 0 Acquire True, Event 0 (Write Value) True, Event 0 (Write Returned) True,
          Event 0 (Read To_resume) True, Event 0 (Resume 7) True, Event 0 (Read Value) True,
          Event 0 Release True]
   \<and> \<not> resumes_outside_lock
        [Event 0 Acquire True, Event 0 (Write Value) True, Event 0 (Write Returned) True,
         Event 0 (Read To_resume) True, Event 0 (Resume 7) True, Event 0 (Read Value) True,
         Event 0 Release True]
   \<and> map_sum id (\<lambda>w. map_option to_resume (cell w 0)) (Promise_return_value 0 42
      (with_coroutine 7 (Suspended (On_Task \<lparr>handle = Some 0\<rparr>) None)
        (one_frame 0 (Promise_waiting (0::32 word) [7])))) = Inr (Some [7])"
  by (simp add: run_defs state_defs resumes_outside_lock_def cell_def)

section \<open>FIFO wake order\<close>

text \<open>
  Claim C6 does not hold of the code.  Let \<open>5\<close> and \<open>3\<close> suspend in this order on a deferred
  \<open>Async\<close> of a cell that is not completed: both are appended to \<open>to_resume\<close>.  The following
  \<open>return_value\<close> resumes \<open>5\<close> under its \<open>lock_guard\<close>, the coroutine \<open>5\<close> runs
  \<open>CoroutineAwaitResume::await_resume\<close> on the held mutex, and the publish never returns; \<open>3\<close>
  is never reached.  When both suspend on the \<open>Task\<close> instead, whose \<open>await_resume\<close> takes
  no mutex, the publish resumes \<open>5\<close> and then \<open>3\<close>.
\<close>

theorem publish_hangs_at_first_Async_waiter:
  "map_sum id (\<lambda>w. map_option to_resume (cell w 0))
      (register_all (Async_await_suspend (Async_deferred 0 0)) [5, 3]
        (with_coroutine 5 (Suspended (On_Async (Async_deferred 0 0)) None)
        (with_coroutine 3 (Suspended (On_Async (Async_deferred 0 0)) None)
          (one_frame 0 (Promise_init (0::32 word)))))) = Inr (Some [5, 3])
   \<and> andthen
      (register_all (Async_await_suspend (Async_deferred 0 0)) [5, 3]
        (with_coroutine 5 (Suspended (On_Async (Async_deferred 0 0)) None)
        (with_coroutine 3 (Suspended (On_Async (Async_deferred 0 0)) None)
          (one_frame 0 (Promise_init (0::32 word))))))
      (Promise_return_value 0 42) = Inl Deadlock
   \<and> map_sum id (\<lambda>w. resumed (trace w))
      (andthen
        (register_all (Task_await_suspend \<lparr>handle = Some 0\<rparr>) [5, 3]
          (with_coroutine 5 (Suspended (On_Task \<lparr>handle = Some 0\<rparr>) None)
          (with_coroutine 3 (Suspended (On_Task \<lparr>handle = Some 0\<rparr>) None)
            (one_frame 0 (Promise_init (0::32 word))))))
        (Promise_return_value 0 42)) = Inr [5, 3]"
  by (simp add: run_defs state_defs resumed_def cell_def)

section \<open>Suspending on a deferred awaitable\<close>

text \<open>
  Claim C7 does not hold of the code.  \<open>await_suspend\<close> does read \<open>returned\<close> under the mutex
  and then resumes or appends (the last two conjuncts, for a waiter on the \<open>Task\<close>).  But the
  continuation is resumed inside the guard: when \<open>Async::await_suspend\<close> finds the cell
  completed, the resumed coroutine \<open>9\<close> runs \<open>CoroutineAwaitResume::await_resume\<close> on the held
  mutex and never proceeds; and when \<open>9\<close> registers first, the publish that follows hangs in
  the same way.  When the publish is the \<open>co_return\<close> of the coroutine and comes first, the
  frame with the cell is freed at the end of the body, and a suspend that comes after it,
  through the task or through a deferred \<open>Async\<close>, reaches into a frame that is gone.
\<close>

theorem suspend_racing_publish_fails:
  "Async_await_suspend (Async_deferred 0 0) 9
      (with_coroutine 9 (Suspended (On_Async (Async_deferred 0 0)) None)
        (one_frame 0 (Promise_completed (42::32 word)))) = Inl Deadlock
   \<and> andthen
      (Async_await_suspend (Async_deferred 0 0) 9
        (with_coroutine 9 (Suspended (On_Async (Async_deferred 0 0)) None)
          (one_frame 0 (Promise_init (0::32 word)))))
      (Promise_return_value 0 42) = Inl Deadlock
   \<and> andthen
      (co_return 0 42
        (with_coroutine 9 (Suspended (On_Task \<lparr>handle = Some 0\<rparr>) None)
          (one_frame 0 (Promise_init (0::32 word)))))
      (Task_await_suspend \<lparr>handle = Some 0\<rparr> 9) = Inl Undefined_behaviour
   \<and> andthen
      (co_return 0 42
        (with_coroutine 9 (Suspended (On_Async (Async_deferred 0 0)) None)
          (one_frame 0 (Promise_init (0::32 word)))))
      (Async_await_suspend (Async_deferred 0 0) 9) = Inl Undefined_behaviour
   \<and> map_sum id (\<lambda>w. (resumed (trace w), map_option to_resume (cell w 0)))
      (Task_await_suspend \<lparr>handle = Some 0\<rparr> 9
        (with_coroutine 9 (Suspended (On_Task \<lparr>handle = Some 0\<rparr>) None)
          (one_frame 0 (Promise_completed (42::32 word))))) = Inr ([9], Some [])
   \<and> map_sum id (\<lambda>w. (resumed (trace w), map_option to_resume (cell w 0)))
      (Task_await_suspend \<lparr>handle = Some 0\<rparr> 9
        (with_coroutine 9 (Suspended (On_Task \<lparr>handle = Some 0\<rparr>) None)
          (one_frame 0 (Promise_init (0::32 word))))) = Inr ([], Some [9])"
  by (simp add: run_defs state_defs resumed_def cell_def)

section \<open>Publishing twice\<close>

lemma await_resume_of_returned:
  "await_resume_of aw w = Inr w' \<Longrightarrow>
   map_option (\<lambda>p. returned (holder p)) (frames w' c) =
   map_option (\<lambda>p. returned (holder p)) (frames w c)"
  by (cases aw)
    (auto simp: await_resume_of_def CoroutineAwaitResume_await_resume_def
      CoroutineAwaitResume_void_await_resume_def Task_await_resume_def Task_void_await_resume_def
      andthen_def lock_guard_def unlock_def load_def emit_def mutex_held_def
      split: option.splits if_splits)

lemma resume_returned:
  "resume d h w = Inr w' \<Longrightarrow>
   map_option (\<lambda>p. returned (holder p)) (frames w' c) =
   map_option (\<lambda>p. returned (holder p)) (frames w c)"
  by (auto simp: resume_def andthen_def emit_def
      split: option.splits suspended.splits sum.splits dest!: await_resume_of_returned [where c = c])

lemma resume_all_returned:
  "resume_all d hs w = Inr w' \<Longrightarrow>
   map_option (\<lambda>p. returned (holder p)) (frames w' c) =
   map_option (\<lambda>p. returned (holder p)) (frames w c)"
proof (induction hs arbitrary: w)
  case Nil
  then show ?case by simp
next
  case (Cons h hs)
  then obtain w1 where a: "resume d h w = Inr w1" and b: "resume_all d hs w1 = Inr w'"
    by (auto simp: andthen_def split: sum.splits)
  show ?case
    using Cons.IH[OF b] resume_returned[OF a, of c] by simp
qed

lemma flag_kept_quiet:
  assumes "flag_kept c (Inr w)"
  shows "flag_kept c (map_sum id snd (Async_await_ready tel a w))"
    and "flag_kept c (map_sum id snd (CoroutineAwaitResume_await_resume a w))"
    and "flag_kept c (map_sum id snd (Task_await_ready t w))"
    and "flag_kept c (map_sum id snd (Task_await_resume t w))"
  using assms
  by (auto simp: flag_kept_def
      Async_await_ready_def CoroutineAwaitResume_await_resume_def
      Task_await_ready_def Task_await_resume_def
      andthen_def lock_guard_def load_def unlock_def
      emit_def mutex_held_def bump_awaitable_ready_def bump_awaitable_need_to_wait_def
      bump_immediate_ready_def split: option.splits if_splits)

lemma flag_kept_suspend:
  assumes "flag_kept c (Inr w)"
  shows "flag_kept c (Task_await_suspend t h w)"
proof (cases "Task_await_suspend t h w")
  case (Inl e)
  then show ?thesis by (simp add: flag_kept_def)
next
  case (Inr w')
  show ?thesis
    using assms Inr
    by (auto simp: flag_kept_def Task_await_suspend_def
        andthen_def lock_guard_def load_def store_def unlock_def emit_def mutex_held_def
        split: option.splits if_splits sum.splits dest!: resume_returned [where c = c])
qed

lemma flag_kept_Async_suspend:
  assumes "flag_kept c (Inr w)"
  shows "flag_kept c (Async_await_suspend a h w)"
proof (cases "Async_await_suspend a h w")
  case (Inl e)
  then show ?thesis by (simp add: flag_kept_def)
next
  case (Inr w')
  show ?thesis
    using assms Inr
    by (auto simp: flag_kept_def Async_await_suspend_def
        andthen_def lock_guard_def load_def store_def unlock_def emit_def mutex_held_def
        split: option.splits if_splits sum.splits dest!: resume_returned [where c = c])
qed

lemma flag_kept_publish:
  assumes "flag_kept c (Inr w)"
  shows "flag_kept c (Promise_return_value d x w)"
proof (cases "Promise_return_value d x w")
  case (Inl e)
  then show ?thesis by (simp add: flag_kept_def)
next
  case (Inr w')
  show ?thesis
    using assms Inr
    by (auto simp: flag_kept_def Promise_return_value_def
        andthen_def lock_guard_def load_def store_def unlock_def emit_def mutex_held_def
        split: option.splits if_splits sum.splits dest!: resume_all_returned [where c = c])
qed

lemma flag_kept_publish_void:
  assumes "flag_kept c (Inr u)"
  shows "flag_kept c (Promise_return_void d u)"
proof (cases "Promise_return_void d u")
  case (Inl e)
  then show ?thesis by (simp add: flag_kept_def)
next
  case (Inr w')
  show ?thesis
    using assms Inr
    by (auto simp: flag_kept_def Promise_return_void_def
        andthen_def lock_guard_def load_def store_def unlock_def emit_def mutex_held_def
        split: option.splits if_splits sum.splits dest!: resume_all_returned [where c = c])
qed

text \<open>
  Claim C4 says that the completed flag goes from false to true exactly once in the life of
  every cell, and that a second publish is rejected or fatal and never overwrites the
  value.  The code has no test of \<open>returned\<close> in \<open>return_value\<close>: after \<open>return_value(1)\<close>, a
  \<open>return_value(2)\<close> on the same cell returns normally and the cell holds \<open>2\<close>.  And a cell
  need not be published at all: the destructor of a task whose body is still suspended
  destroys a frame whose flag was never set.
\<close>

theorem second_return_value_overwrites:
  "map_sum id (\<lambda>w. map_option val (cell w 0))
      (Promise_return_value 0 1 (one_frame 0 (Promise_init (0::32 word)))) = Inr (Some 1)
   \<and> map_sum id (\<lambda>w. map_option val (cell w 0))
      (andthen (Promise_return_value 0 1 (one_frame 0 (Promise_init (0::32 word))))
         (Promise_return_value 0 2)) = Inr (Some 2)
   \<and> \<not> completed (one_frame 0 (Promise_init (0::32 word))) 0
   \<and> map_sum id (\<lambda>w. frames w 0)
      (Task_dtor \<lparr>handle = Some 0\<rparr> (one_frame 0 (Promise_init (0::32 word)))) = Inr None"
  by (simp add: Promise_return_value_quiet [where p = "Promise_init 0"]
      Promise_return_value_quiet
        [where p = "(Promise_init 0)\<lparr>holder := (holder (Promise_init 0))\<lparr>val := 1, returned := True, mut := False\<rparr>\<rparr>"]
      andthen_def cell_def completed_def one_frame_def no_frames_def Promise_init_def
      Task_dtor_def coroutine_destroy_def)

lemma publish_sets_flag: "flag_kept d (Promise_return_value d x w)"
proof (cases "Promise_return_value d x w")
  case (Inl e)
  then show ?thesis by (simp add: flag_kept_def)
next
  case (Inr w')
  show ?thesis
    using Inr
    by (auto simp: flag_kept_def Promise_return_value_def
        andthen_def lock_guard_def load_def store_def unlock_def emit_def mutex_held_def
        split: option.splits if_splits sum.splits dest!: resume_all_returned [where c = d])
qed

lemma publish_void_sets_flag: "flag_kept d (Promise_return_void d u)"
proof (cases "Promise_return_void d u")
  case (Inl e)
  then show ?thesis by (simp add: flag_kept_def)
next
  case (Inr w')
  show ?thesis
    using Inr
    by (auto simp: flag_kept_def Promise_return_void_def
        andthen_def lock_guard_def load_def store_def unlock_def emit_def mutex_held_def
        split: option.splits if_splits sum.splits dest!: resume_all_returned [where c = d])
qed

text \<open>
  Claim C4 as amended.  A publish that returns leaves \<open>returned\<close> set, and once \<open>returned\<close> is
  set every operation of the code that returns leaves it set for as long as the frame
  lives.  So the flag goes from false to true at the first publish and never again: exactly
  once for a cell that is published.  A second publish is neither rejected nor fatal:
  \<open>return_value\<close> has no test of \<open>returned\<close>, and on a live cell whose mutex is free and that
  has no listed waiter \<open>return_value(v)\<close> returns normally and leaves the cell with \<open>v\<close>
  stored in place of the value it held, whether or not the cell was completed before.
\<close>

theorem flag_set_once_value_overwritten:
  assumes "frames w c = Some p" and "\<not> mut (holder p)" and "to_resume (holder p) = []"
  shows "(\<exists>w'. Promise_return_value c v w = Inr w'
           \<and> cell w' c = Some ((holder p)\<lparr>val := v, returned := True\<rparr>))
     \<and> flag_kept d (Promise_return_value d x z)
     \<and> flag_kept d (Promise_return_void d u)
     \<and> (flag_kept c (Inr z) \<longrightarrow>
           flag_kept c (Promise_return_value d x z)
         \<and> flag_kept c (map_sum id snd (Async_await_ready tel a z))
         \<and> flag_kept c (Async_await_suspend a h z)
         \<and> flag_kept c (map_sum id snd (CoroutineAwaitResume_await_resume a z))
         \<and> flag_kept c (map_sum id snd (Task_await_ready t z))
         \<and> flag_kept c (Task_await_suspend t h z)
         \<and> flag_kept c (map_sum id snd (Task_await_resume t z)))
     \<and> (flag_kept e (Inr u) \<longrightarrow> flag_kept e (Promise_return_void d u))"
proof -
  have same: "(holder p)\<lparr>val := v, returned := True, mut := False\<rparr> =
      (holder p)\<lparr>val := v, returned := True\<rparr>"
    using assms(2) by (cases "holder p") simp
  have "\<exists>w'. Promise_return_value c v w = Inr w'
           \<and> cell w' c = Some ((holder p)\<lparr>val := v, returned := True\<rparr>)"
    using same by (simp add: Promise_return_value_quiet[OF assms] cell_def)
  then show ?thesis
    by (simp add: flag_kept_publish flag_kept_quiet flag_kept_suspend flag_kept_Async_suspend
        flag_kept_publish_void publish_sets_flag publish_void_sets_flag)
qed

theorem flag_set_once_value_overwritten_witness:
  "frames (one_frame 0 (Promise_completed (1::32 word))) 0 = Some (Promise_completed 1)
   \<and> \<not> mut (holder (Promise_completed (1::32 word)))
   \<and> to_resume (holder (Promise_completed (1::32 word))) = []
   \<and> flag_kept 0 (Inr (with_coroutine 9 (Suspended (On_Task \<lparr>handle = Some 0\<rparr>) None)
           (one_frame 0 (Promise_completed (1::32 word)))))
   \<and> flag_kept 0 (Inr (one_frame 0 (Promise_completed ())))
   \<and> (\<exists>w'. Promise_return_value 0 2 (one_frame 0 (Promise_completed (1::32 word))) = Inr w'
           \<and> cell w' 0 = Some \<lparr>mut = False, returned = True, val = 2, to_resume = []\<rparr>)
   \<and> flag_kept 0 (Promise_return_value 0 2 (with_coroutine 9 (Suspended (On_Task \<lparr>handle = Some 0\<rparr>) None)
           (one_frame 0 (Promise_completed (1::32 word)))))
   \<and> flag_kept 0 (map_sum id snd (Async_await_ready True (Async_deferred 0 0) (with_coroutine 9 (Suspended (On_Task \<lparr>handle = Some 0\<rparr>) None)
           (one_frame 0 (Promise_completed (1::32 word))))))
   \<and> flag_kept 0 (Async_await_suspend (Async_deferred 0 0) 9 (with_coroutine 9 (Suspended (On_Task \<lparr>handle = Some 0\<rparr>) None)
           (one_frame 0 (Promise_completed (1::32 word)))))
   \<and> flag_kept 0 (map_sum id snd (CoroutineAwaitResume_await_resume (Async_deferred 0 0) (with_coroutine 9 (Suspended (On_Task \<lparr>handle = Some 0\<rparr>) None)
           (one_frame 0 (Promise_completed (1::32 word))))))
   \<and> flag_kept 0 (map_sum id snd (Task_await_ready \<lparr>handle = Some 0\<rparr> (with_coroutine 9 (Suspended (On_Task \<lparr>handle = Some 0\<rparr>) None)
           (one_frame 0 (Promise_completed (1::32 word))))))
   \<and> flag_kept 0 (Task_await_suspend \<lparr>handle = Some 0\<rparr> 9 (with_coroutine 9 (Suspended (On_Task \<lparr>handle = Some 0\<rparr>) None)
           (one_frame 0 (Promise_completed (1::32 word)))))
   \<and> flag_kept 0 (map_sum id snd (Task_await_resume \<lparr>handle = Some 0\<rparr> (with_coroutine 9 (Suspended (On_Task \<lparr>handle = Some 0\<rparr>) None)
           (one_frame 0 (Promise_completed (1::32 word))))))
   \<and> flag_kept 0 (Promise_return_void 0 (one_frame 0 (Promise_completed ())))"
proof -
  have k: "flag_kept 0 (Inr (with_coroutine 9 (Suspended (On_Task \<lparr>handle = Some 0\<rparr>) None)
           (one_frame 0 (Promise_completed (1::32 word)))))"
    "flag_kept 0 (Inr (one_frame 0 (Promise_completed ())))"
    by (simp_all add: flag_kept_def one_frame_def with_coroutine_def Promise_completed_def)
  have h: "frames (one_frame 0 (Promise_completed (1::32 word))) 0 = Some (Promise_completed 1)"
    "\<not> mut (holder (Promise_completed (1::32 word)))"
    "to_resume (holder (Promise_completed (1::32 word))) = []"
    by (simp_all add: one_frame_def Promise_completed_def)
  have v: "(holder (Promise_completed (1::32 word)))\<lparr>val := 2, returned := True\<rparr> =
      \<lparr>mut = False, returned = True, val = 2, to_resume = []\<rparr>"
    by (simp add: Promise_completed_def)
  show ?thesis
    using k h flag_set_once_value_overwritten
      [OF h, where v = 2 and x = 2 and d = 0
         and z = "with_coroutine 9 (Suspended (On_Task \<lparr>handle = Some 0\<rparr>) None)
           (one_frame 0 (Promise_completed (1::32 word)))"
         and tel = True and a = "Async_deferred 0 0" and h = 9
         and t = "\<lparr>handle = Some 0\<rparr>"
         and u = "one_frame 0 (Promise_completed ())" and e = 0]
    unfolding v by simp
qed

end
